theory Spec2Isabelle
  imports Complex_Main "HOL-Library.Sublist"
begin

section \<open>Common vocabulary of the two scripts\<close>

text \<open>
  Both source files are module-level Python scripts. A run of a script is modelled by the
  list of the effects it performs, in program order, and by the way the process ends.
  Python \<open>str\<close> values are modelled as \<open>string\<close>, holding the UTF-8 encoding of the
  text: equality and emptiness of the encodings coincide with equality and emptiness of the
  texts, which is all the scripts ask of a string. Python \<open>float\<close> values are modelled
  as \<open>real\<close>, that is without rounding.
\<close>

datatype exn =
    KeyError string
  | IndexError
  | LibraryError string

text \<open>
  The exceptions of the model are the ones a run can meet: a missing dictionary key, an
  index out of range, and any exception raised inside a library call. A process ends by
  falling off the end of the script, by \<open>exit(n)\<close>, or by an exception that nothing
  catches (the interpreter then reports status 1).
\<close>

datatype outcome = Completed | Exited int | Raised exn

fun exit_status :: "outcome \<Rightarrow> int" where
  "exit_status Completed = 0"
| "exit_status (Exited n) = n"
| "exit_status (Raised e) = 1"

section \<open>The bootstrap script (Stock-crypto-portfolio-optimizer/.py)\<close>

text \<open>
  The process environment is a dictionary from variable names to values.
  \<open>os.getenv(k)\<close> is the lookup, \<open>None\<close> for a variable that is not set.
\<close>

type_synonym environ = "string \<rightharpoonup> string"

text \<open>
  The three library entry points the script calls are parameters of the model:
  \<open>load_dotenv()\<close> updates the environment (line 11), the two constructors (lines 21 to 26)
  return an object or raise.
\<close>

record ('c, 'a) boot_lib =
  load_dotenv :: "environ \<Rightarrow> environ"
  OpenAIChatCompletionClient :: "string \<Rightarrow> string \<Rightarrow> exn + 'c"
  AssistantAgent :: "'c \<Rightarrow> string \<Rightarrow> exn + 'a"

datatype 'c boot_event =
    BPrint string
  | ConstructClient string string
  | ConstructAgent 'c string

record ('c, 'a) boot_run =
  events :: "'c boot_event list"
  ending :: outcome
  client :: "'c option"
  assistant :: "'a option"

definition placeholder :: string where
  "placeholder = ''your_openai_api_key_here''"

definition warning_line1 :: string where
  "warning_line1 =
     [CHR 0xE2, CHR 0x9A, CHR 0xA0, CHR 0xEF, CHR 0xB8, CHR 0x8F]
     @ ''  Warning: Please set your OpenAI API key in the .env file''"

definition warning_line2 :: string where
  "warning_line2 =
     ''   Replace '' @ [CHR 0x27] @ ''your_openai_api_key_here'' @ [CHR 0x27]
     @ '' with your actual API key''"

definition success_line :: string where
  "success_line =
     [CHR 0xE2, CHR 0x9C, CHR 0x85] @ '' OpenAI API client configured successfully!''"

text \<open>Python's \<open>not api_key\<close> for a value that is \<open>None\<close> or a \<open>str\<close>.\<close>

fun py_not :: "string option \<Rightarrow> bool" where
  "py_not None = True"
| "py_not (Some s) = (s = [])"

text \<open>
  Lines 11 to 27. In the branch that constructs the client the guard has passed, so
  \<open>api_key\<close> is a string; the \<open>None\<close> case of that branch cannot be reached and passes
  the empty string.
\<close>

definition bootstrap :: "('c, 'a) boot_lib \<Rightarrow> environ \<Rightarrow> ('c, 'a) boot_run" where
  "bootstrap L env =
     (let api_key = (load_dotenv L env) ''OPENAI_API_KEY'' in
      if py_not api_key \<or> api_key = Some placeholder then
        \<lparr>events = [BPrint warning_line1, BPrint warning_line2],
         ending = Exited 1, client = None, assistant = None\<rparr>
      else
        (let k = (case api_key of None \<Rightarrow> [] | Some s \<Rightarrow> s) in
         case OpenAIChatCompletionClient L ''gpt-4o-mini'' k of
           Inl e \<Rightarrow>
             \<lparr>events = [ConstructClient ''gpt-4o-mini'' k],
              ending = Raised e, client = None, assistant = None\<rparr>
         | Inr c \<Rightarrow>
             (case AssistantAgent L c ''Assistant'' of
                Inl e \<Rightarrow>
                  \<lparr>events = [ConstructClient ''gpt-4o-mini'' k, ConstructAgent c ''Assistant''],
                   ending = Raised e, client = Some c, assistant = None\<rparr>
              | Inr a \<Rightarrow>
                  \<lparr>events = [ConstructClient ''gpt-4o-mini'' k, ConstructAgent c ''Assistant'',
                             BPrint success_line],
                   ending = Completed, client = Some c, assistant = Some a\<rparr>)))"

fun is_construct_client :: "'c boot_event \<Rightarrow> bool" where
  "is_construct_client (ConstructClient m k) = True"
| "is_construct_client _ = False"

fun is_construct_agent :: "'c boot_event \<Rightarrow> bool" where
  "is_construct_agent (ConstructAgent c n) = True"
| "is_construct_agent _ = False"

text \<open>A library for concrete runs: no .env file, constructors that return records of their arguments.\<close>

definition demo_lib :: "(string \<times> string, (string \<times> string) \<times> string) boot_lib" where
  "demo_lib =
     \<lparr>load_dotenv = (\<lambda>env. env),
      OpenAIChatCompletionClient = (\<lambda>m k. Inr (m, k)),
      AssistantAgent = (\<lambda>c n. Inr (c, n))\<rparr>"

section \<open>The demo script (run_crypto_demo.py)\<close>

subsection \<open>The random module\<close>

text \<open>
  The generator state \<open>'g\<close> stands for everything library code can read and change
  during a run. The two primitives of Python's \<open>random\<close> module are parameters:
  \<open>random()\<close>, a float in the interval from 0 (included) to 1 (excluded), and
  \<open>_randbelow(n)\<close>, an integer below \<open>n\<close>. \<open>uniform\<close> and \<open>choice\<close> are the
  standard library's definitions over them: \<open>a + (b - a) * random()\<close> and
  \<open>seq[_randbelow(len(seq))]\<close>, the latter raising IndexError on an empty sequence.
\<close>

record 'g random_module =
  random :: "'g \<Rightarrow> real \<times> 'g"
  randbelow :: "nat \<Rightarrow> 'g \<Rightarrow> nat \<times> 'g"

definition uniform :: "'g random_module \<Rightarrow> real \<Rightarrow> real \<Rightarrow> 'g \<Rightarrow> (exn + real) \<times> 'g" where
  "uniform R a b g = (case random R g of (u, g') \<Rightarrow> (Inr (a + (b - a) * u), g'))"

definition choice :: "'g random_module \<Rightarrow> 'a list \<Rightarrow> 'g \<Rightarrow> (exn + 'a) \<times> 'g" where
  "choice R seq g =
     (if seq = [] then (Inl IndexError, g)
      else case randbelow R (length seq) g of
             (k, g') \<Rightarrow> (if k < length seq then Inr (seq ! k) else Inl IndexError, g'))"

subsection \<open>The imported module\<close>

text \<open>
  \<open>crypto_portfolio_optimizer\<close> is imported from \<open>python-backend\<close> (lines 15 and 31
  to 35). The script treats its portfolio objects \<open>'p\<close> as opaque and calls four entry
  points, each of which may change the state and may raise.
\<close>

record ('g, 'p) optimizer_module =
  generate_random_portfolio :: "'g \<Rightarrow> (exn + 'p) \<times> 'g"
  display_portfolio :: "'p \<Rightarrow> 'g \<Rightarrow> (exn + unit) \<times> 'g"
  get_portfolio_value :: "'p \<Rightarrow> 'g \<Rightarrow> (exn + (string \<rightharpoonup> real)) \<times> 'g"
  optimize_transaction :: "'p \<Rightarrow> real \<Rightarrow> string \<Rightarrow> 'g \<Rightarrow> (exn + string) \<times> 'g"

subsection \<open>Effects and sequencing\<close>

text \<open>
  The effects of the script, in the order it performs them: a \<open>print\<close> statement with
  the text it is given, and each call that leaves the script, with its arguments.
\<close>

datatype 'p event =
    Print string
  | GenerateRandomPortfolio
  | DisplayPortfolio 'p
  | GetPortfolioValue 'p
  | RandomUniform real real
  | RandomChoice "string list"
  | OptimizeTransaction 'p real string

record ('g, 'p) machine =
  trace :: "'p event list"
  world :: 'g

type_synonym ('g, 'p, 'a) stmt = "('g, 'p) machine \<Rightarrow> (exn + 'a) \<times> ('g, 'p) machine"

text \<open>Statement after statement: an exception skips everything that follows.\<close>

definition seq :: "('g, 'p, 'a) stmt \<Rightarrow> ('a \<Rightarrow> ('g, 'p, 'b) stmt) \<Rightarrow> ('g, 'p, 'b) stmt" where
  "seq m f s = (case m s of (Inl e, s') \<Rightarrow> (Inl e, s') | (Inr x, s') \<Rightarrow> f x s')"

definition print :: "string \<Rightarrow> ('g, 'p, unit) stmt" where
  "print text s = (Inr (), s\<lparr>trace := trace s @ [Print text]\<rparr>)"

fun prints :: "string list \<Rightarrow> ('g, 'p, unit) stmt" where
  "prints [] = (\<lambda>s. (Inr (), s))"
| "prints (l # ls) = seq (print l) (\<lambda>_. prints ls)"

text \<open>A call that leaves the script: the event is recorded, then the callee runs on the state.\<close>

definition call :: "'p event \<Rightarrow> ('g \<Rightarrow> (exn + 'a) \<times> 'g) \<Rightarrow> ('g, 'p, 'a) stmt" where
  "call ev f s =
     (case f (world s) of (r, g') \<Rightarrow> (r, \<lparr>trace = trace s @ [ev], world = g'\<rparr>))"

text \<open>\<open>d[k]\<close> on a dictionary.\<close>

definition subscript :: "(string \<rightharpoonup> 'v) \<Rightarrow> string \<Rightarrow> ('g, 'p, 'v) stmt" where
  "subscript d k s = (case d k of None \<Rightarrow> (Inl (KeyError k), s) | Some v \<Rightarrow> (Inr v, s))"

subsection \<open>The text the script prints\<close>

definition rule80 :: string where
  "rule80 = replicate 80 (CHR ''='')"

definition header :: "string list" where
  "header =
     [rule80,
      ''CRYPTO PORTFOLIO OPTIMIZER - DEMO'',
      rule80,
      [],
      [CHR 0xF0, CHR 0x9F, CHR 0x93, CHR 0x8A] @ '' This demo will:'',
      ''   1. Generate a random crypto portfolio'',
      ''   2. Show current prices and holdings'',
      ''   3. Simulate a transaction request'',
      ''   4. Provide AI-powered recommendations'',
      [],
      rule80,
      []]"

definition generating_line :: string where
  "generating_line =
     [CHR 0xF0, CHR 0x9F, CHR 0x8E, CHR 0xB2] @ '' Generating random portfolio...'' @ [CHR 0x0A]"

text \<open>
  Lines 53 to 58. \<open>fmt\<close> is Python's \<open>:.2f\<close> rendering of a float, a parameter of the
  model.
\<close>

definition request_banner :: "(real \<Rightarrow> string) \<Rightarrow> real \<Rightarrow> string \<Rightarrow> string list" where
  "request_banner fmt amount purpose =
     [CHR 0x0A # rule80,
      [CHR 0xF0, CHR 0x9F, CHR 0x92, CHR 0xB8] @ '' TRANSACTION REQUEST'',
      rule80,
      ''Amount: $'' @ fmt amount,
      ''Purpose: '' @ purpose,
      rule80]"

definition analyzing_line :: string where
  "analyzing_line =
     CHR 0x0A # [CHR 0xF0, CHR 0x9F, CHR 0xA4, CHR 0x96]
     @ '' Analyzing portfolio and generating recommendation...'' @ [CHR 0x0A]"

definition footer :: "string list" where
  "footer =
     [CHR 0x0A # rule80,
      [CHR 0xE2, CHR 0x9C, CHR 0x85] @ '' DEMO COMPLETE!'',
      rule80,
      [],
      [CHR 0xF0, CHR 0x9F, CHR 0x92, CHR 0xA1] @ '' To run the full interactive version:'',
      ''   cd python-backend'',
      ''   python crypto_portfolio_optimizer.py'',
      [],
      [CHR 0xF0, CHR 0x9F, CHR 0x93, CHR 0x9A] @ '' For more info, see: python-backend/README.md'',
      rule80]"

subsection \<open>The script\<close>

text \<open>Lines 47 to 49: the amount of the transaction.\<close>

definition transaction_amount ::
  "'g random_module \<Rightarrow> ('g, 'p) optimizer_module \<Rightarrow> 'p \<Rightarrow> ('g, 'p, real) stmt" where
  "transaction_amount R M portfolio =
     seq (call (GetPortfolioValue portfolio) (get_portfolio_value M portfolio)) (\<lambda>portfolio_data.
     seq (subscript portfolio_data ''total_value'') (\<lambda>total_value.
     call (RandomUniform (total_value * 0.2) (total_value * 0.4))
          (uniform R (total_value * 0.2) (total_value * 0.4))))"

text \<open>Lines 50 and 51: the purpose of the transaction.\<close>

definition purposes :: "string list" where
  "purposes = [''payment to friend'', ''online purchase'', ''service payment'']"

definition transaction_purpose :: "'g random_module \<Rightarrow> ('g, 'p, string) stmt" where
  "transaction_purpose R = call (RandomChoice purposes) (choice R purposes)"

text \<open>Lines 61 to 63: the recommendation is requested and printed.\<close>

definition recommend ::
  "('g, 'p) optimizer_module \<Rightarrow> 'p \<Rightarrow> real \<Rightarrow> string \<Rightarrow> ('g, 'p, unit) stmt" where
  "recommend M portfolio amount purpose =
     seq (print analyzing_line) (\<lambda>_.
     seq (call (OptimizeTransaction portfolio amount purpose)
               (optimize_transaction M portfolio amount purpose)) (\<lambda>recommendation.
     print recommendation))"

text \<open>
  Lines 17 to 74. Lines 4 to 15 (the encoding of standard output on Windows, whose failure
  is swallowed, and the module search path) and the imports bind names and print nothing;
  they have no event.
\<close>

definition script ::
  "'g random_module \<Rightarrow> ('g, 'p) optimizer_module \<Rightarrow> (real \<Rightarrow> string) \<Rightarrow> ('g, 'p, unit) stmt" where
  "script R M fmt =
     seq (prints header) (\<lambda>_.
     seq (print generating_line) (\<lambda>_.
     seq (call GenerateRandomPortfolio (generate_random_portfolio M)) (\<lambda>portfolio.
     seq (print (CHR 0x0A # rule80)) (\<lambda>_.
     seq (call (DisplayPortfolio portfolio) (display_portfolio M portfolio)) (\<lambda>_.
     seq (transaction_amount R M portfolio) (\<lambda>amount.
     seq (transaction_purpose R) (\<lambda>purpose.
     seq (prints (request_banner fmt amount purpose)) (\<lambda>_.
     seq (recommend M portfolio amount purpose) (\<lambda>_.
     prints footer)))))))))"

record ('g, 'p) demo_run =
  effects :: "'p event list"
  finish :: outcome
  final :: 'g

definition demo ::
  "'g random_module \<Rightarrow> ('g, 'p) optimizer_module \<Rightarrow> (real \<Rightarrow> string) \<Rightarrow> 'g \<Rightarrow> ('g, 'p) demo_run" where
  "demo R M fmt g =
     (case script R M fmt \<lparr>trace = [], world = g\<rparr> of
        (Inl e, s) \<Rightarrow> \<lparr>effects = trace s, finish = Raised e, final = world s\<rparr>
      | (Inr u, s) \<Rightarrow> \<lparr>effects = trace s, finish = Completed, final = world s\<rparr>)"

text \<open>
  The effects of a run that reaches the end of the script, for the portfolio, the total
  value, the amount, the purpose and the recommendation met on the way.
\<close>

definition full_trace ::
  "(real \<Rightarrow> string) \<Rightarrow> 'p \<Rightarrow> real \<Rightarrow> real \<Rightarrow> string \<Rightarrow> string \<Rightarrow> 'p event list" where
  "full_trace fmt p total_value amount purpose recommendation =
     map Print header
     @ [Print generating_line, GenerateRandomPortfolio,
        Print (CHR 0x0A # rule80), DisplayPortfolio p,
        GetPortfolioValue p,
        RandomUniform (total_value * 0.2) (total_value * 0.4),
        RandomChoice purposes]
     @ map Print (request_banner fmt amount purpose)
     @ [Print analyzing_line, OptimizeTransaction p amount purpose, Print recommendation]
     @ map Print footer"

fun is_print :: "'p event \<Rightarrow> bool" where
  "is_print (Print s) = True"
| "is_print _ = False"

fun is_request :: "'p event \<Rightarrow> bool" where
  "is_request (OptimizeTransaction p a s) = True"
| "is_request _ = False"

text \<open>The calls among the effects, that is everything but the print statements.\<close>

definition calls :: "'p event list \<Rightarrow> 'p event list" where
  "calls es = filter (\<lambda>e. \<not> is_print e) es"

section \<open>The portfolio module, from its specification\<close>

text \<open>
  Modelled from the spec: \<open>python-backend/crypto_portfolio_optimizer.py\<close>, which defines
  \<open>generate_random_portfolio\<close> and the portfolio's \<open>get_portfolio_value\<close> and
  \<open>display_portfolio\<close>, is not among the sources. The specification describes a portfolio
  as asset symbols with a quantity held and a unit price, and generation as producing a
  non-empty collection of (symbol, quantity, price) tuples from a pseudo-random generator
  of no documented distribution, without error conditions. The draws of that generator are
  parameters: how many holdings follow the first one, and each holding.
\<close>

type_synonym holding = "string \<times> real \<times> real"

type_synonym portfolio = "holding list"

record 'g sampler =
  draw_count :: "'g \<Rightarrow> nat \<times> 'g"
  draw_holding :: "'g \<Rightarrow> holding \<times> 'g"

fun draw_holdings :: "('g \<Rightarrow> holding \<times> 'g) \<Rightarrow> nat \<Rightarrow> 'g \<Rightarrow> holding list \<times> 'g" where
  "draw_holdings d 0 g = ([], g)"
| "draw_holdings d (Suc n) g =
     (case d g of (h, g1) \<Rightarrow>
        (case draw_holdings d n g1 of (hs, g2) \<Rightarrow> (h # hs, g2)))"

definition spec_generate_random_portfolio :: "'g sampler \<Rightarrow> 'g \<Rightarrow> (exn + portfolio) \<times> 'g" where
  "spec_generate_random_portfolio S g =
     (case draw_count S g of (n, g1) \<Rightarrow>
        (case draw_holdings (draw_holding S) (Suc n) g1 of (hs, g2) \<Rightarrow> (Inr hs, g2)))"

text \<open>
  Modelled from the spec: the total value is derived from the holdings as the sum of
  quantity times price, here accumulated holding by holding from 0. The accessor returns a
  dictionary; the script reads its key \<open>total_value\<close> (line 48).
\<close>

definition holding_value :: "holding \<Rightarrow> real" where
  "holding_value h = (case h of (symbol, quantity, price) \<Rightarrow> quantity * price)"

definition spec_total_value :: "portfolio \<Rightarrow> real" where
  "spec_total_value p = foldl (\<lambda>total h. total + holding_value h) 0 p"

definition spec_get_portfolio_value :: "portfolio \<Rightarrow> 'g \<Rightarrow> (exn + (string \<rightharpoonup> real)) \<times> 'g" where
  "spec_get_portfolio_value p g = (Inr [''total_value'' \<mapsto> spec_total_value p], g)"

text \<open>
  Modelled from the spec: the display routine writes rows to standard output and returns
  nothing; the recommendation is delegated to an external language model, a parameter.
\<close>

definition spec_display_portfolio :: "portfolio \<Rightarrow> 'g \<Rightarrow> (exn + unit) \<times> 'g" where
  "spec_display_portfolio p g = (Inr (), g)"

definition spec_module ::
  "'g sampler \<Rightarrow> (portfolio \<Rightarrow> real \<Rightarrow> string \<Rightarrow> 'g \<Rightarrow> (exn + string) \<times> 'g)
   \<Rightarrow> ('g, portfolio) optimizer_module" where
  "spec_module S llm =
     \<lparr>generate_random_portfolio = spec_generate_random_portfolio S,
      display_portfolio = spec_display_portfolio,
      get_portfolio_value = spec_get_portfolio_value,
      optimize_transaction = llm\<rparr>"

section \<open>A concrete run\<close>

text \<open>
  A small generator on counters, a sampler that draws the portfolio
  BTC 0.1 at 60000 and ETH 2 at 3000, and a language model that answers with the purpose.
\<close>

definition counter_random :: "nat random_module" where
  "counter_random =
     \<lparr>random = (\<lambda>g. (real (g mod 8) / 8, g + 1)),
      randbelow = (\<lambda>n g. (g mod n, g + 1))\<rparr>"

definition example_sampler :: "nat sampler" where
  "example_sampler =
     \<lparr>draw_count = (\<lambda>g. (1, g + 1)),
      draw_holding = (\<lambda>g. (if even g then (''BTC'', 0.1, 60000) else (''ETH'', 2, 3000), g + 1))\<rparr>"

definition example_llm :: "portfolio \<Rightarrow> real \<Rightarrow> string \<Rightarrow> nat \<Rightarrow> (exn + string) \<times> nat" where
  "example_llm p amount purpose g = (Inr (''Use ETH for the '' @ purpose), g + 1)"

definition example_fmt :: "real \<Rightarrow> string" where
  "example_fmt x = (if x = 3600 then ''3600.00'' else ''?'')"

section \<open>Properties of the bootstrap script\<close>

text \<open>
  C1. Whenever the API key variable, as the script reads it after \<open>load_dotenv()\<close>, is
  absent or equal to the placeholder, the script prints the two warning lines, ends with
  exit status 1, and constructs no chat-completion client (and no assistant).
\<close>

theorem bootstrap_guard_exits:
  assumes "(load_dotenv L env) ''OPENAI_API_KEY'' = None
           \<or> (load_dotenv L env) ''OPENAI_API_KEY'' = Some placeholder"
  shows "events (bootstrap L env) = [BPrint warning_line1, BPrint warning_line2]
         \<and> ending (bootstrap L env) = Exited 1
         \<and> exit_status (ending (bootstrap L env)) = 1
         \<and> filter is_construct_client (events (bootstrap L env)) = []
         \<and> client (bootstrap L env) = None
         \<and> assistant (bootstrap L env) = None"
  using assms by (auto simp: bootstrap_def)

theorem bootstrap_guard_exits_witness:
  "(load_dotenv demo_lib [''OPENAI_API_KEY'' \<mapsto> placeholder]) ''OPENAI_API_KEY'' = Some placeholder
   \<and> events (bootstrap demo_lib [''OPENAI_API_KEY'' \<mapsto> placeholder])
       = [BPrint warning_line1, BPrint warning_line2]
   \<and> exit_status (ending (bootstrap demo_lib [''OPENAI_API_KEY'' \<mapsto> placeholder])) = 1
   \<and> client (bootstrap demo_lib [''OPENAI_API_KEY'' \<mapsto> placeholder]) = None"
proof -
  have h: "(load_dotenv demo_lib [''OPENAI_API_KEY'' \<mapsto> placeholder]) ''OPENAI_API_KEY''
           = Some placeholder"
    by (simp add: demo_lib_def)
  from h bootstrap_guard_exits [of demo_lib "[''OPENAI_API_KEY'' \<mapsto> placeholder]"]
  show ?thesis by simp
qed

end
